theory Spec2Isabelle
  imports Complex_Main
begin

section \<open>Numbers, errors and Python values\<close>

text \<open>
  The module \<^verbatim>\<open>mete_distributions.py\<close> computes with Python floats. Throughout this
  development a float is idealised as a real number: rounding, overflow of \<^verbatim>\<open>exp\<close>
  and signed zeros are not modelled. What is modelled is the part of float behaviour
  that exists over the reals as well:
  \<^item> the functions of \<^verbatim>\<open>math\<close> and Python's own \<^verbatim>\<open>/\<close> raise
    (\<^verbatim>\<open>ZeroDivisionError\<close>, \<^verbatim>\<open>ValueError\<close>);
  \<^item> the functions of \<^verbatim>\<open>numpy\<close> and arithmetic on numpy scalars never raise but
    return \<^verbatim>\<open>inf\<close>, \<^verbatim>\<open>-inf\<close> or \<^verbatim>\<open>nan\<close>.
\<close>

datatype error = ZeroDivisionError | ValueError | IndexError | NameError

text \<open>Sequencing of computations that may raise: the first exception wins.\<close>

definition bindE :: "error + 'a \<Rightarrow> ('a \<Rightarrow> error + 'b) \<Rightarrow> error + 'b" where
  "bindE r f = (case r of Inl e \<Rightarrow> Inl e | Inr v \<Rightarrow> f v)"

text \<open>\<^verbatim>\<open>a / b\<close> on Python numbers under \<^verbatim>\<open>from __future__ import division\<close>.\<close>

definition py_div :: "real \<Rightarrow> real \<Rightarrow> error + real" where
  "py_div a b = (if b = 0 then Inl ZeroDivisionError else Inr (a / b))"

text \<open>\<^verbatim>\<open>math.log\<close>: a math domain error outside the positive reals.\<close>

definition py_log :: "real \<Rightarrow> error + real" where
  "py_log a = (if a \<le> 0 then Inl ValueError else Inr (ln a))"

text \<open>Running a function that may raise over a list, left to right.\<close>

fun mapE :: "('a \<Rightarrow> error + 'b) \<Rightarrow> 'a list \<Rightarrow> error + 'b list" where
  "mapE f [] = Inr []"
| "mapE f (x # xs) = bindE (f x) (\<lambda>y. bindE (mapE f xs) (\<lambda>ys. Inr (y # ys)))"

subsection \<open>numpy scalars\<close>

datatype npfloat = Fin real | PInf | NInf | NaN

fun np_neg :: "npfloat \<Rightarrow> npfloat" where
  "np_neg (Fin a) = Fin (- a)"
| "np_neg PInf = NInf"
| "np_neg NInf = PInf"
| "np_neg NaN = NaN"

fun np_add :: "npfloat \<Rightarrow> npfloat \<Rightarrow> npfloat" where
  "np_add (Fin a) (Fin b) = Fin (a + b)"
| "np_add NaN _ = NaN"
| "np_add _ NaN = NaN"
| "np_add PInf NInf = NaN"
| "np_add NInf PInf = NaN"
| "np_add PInf _ = PInf"
| "np_add _ PInf = PInf"
| "np_add NInf _ = NInf"
| "np_add _ NInf = NInf"

definition np_sub :: "npfloat \<Rightarrow> npfloat \<Rightarrow> npfloat" where
  "np_sub x y = np_add x (np_neg y)"

text \<open>The sign of a real factor decides the sign of an infinite product or quotient.\<close>

definition signed_inf :: "bool \<Rightarrow> npfloat" where
  "signed_inf positive = (if positive then PInf else NInf)"

fun np_mul :: "npfloat \<Rightarrow> npfloat \<Rightarrow> npfloat" where
  "np_mul (Fin a) (Fin b) = Fin (a * b)"
| "np_mul NaN _ = NaN"
| "np_mul _ NaN = NaN"
| "np_mul (Fin a) PInf = (if a = 0 then NaN else signed_inf (0 < a))"
| "np_mul (Fin a) NInf = (if a = 0 then NaN else signed_inf (a < 0))"
| "np_mul PInf (Fin b) = (if b = 0 then NaN else signed_inf (0 < b))"
| "np_mul NInf (Fin b) = (if b = 0 then NaN else signed_inf (b < 0))"
| "np_mul PInf PInf = PInf"
| "np_mul PInf NInf = NInf"
| "np_mul NInf PInf = NInf"
| "np_mul NInf NInf = PInf"

fun np_div :: "npfloat \<Rightarrow> npfloat \<Rightarrow> npfloat" where
  "np_div (Fin a) (Fin b) =
     (if b \<noteq> 0 then Fin (a / b) else if a = 0 then NaN else signed_inf (0 < a))"
| "np_div NaN _ = NaN"
| "np_div _ NaN = NaN"
| "np_div (Fin a) PInf = Fin 0"
| "np_div (Fin a) NInf = Fin 0"
| "np_div PInf (Fin b) = signed_inf (0 \<le> b)"
| "np_div NInf (Fin b) = signed_inf (b < 0)"
| "np_div PInf PInf = NaN"
| "np_div PInf NInf = NaN"
| "np_div NInf PInf = NaN"
| "np_div NInf NInf = NaN"

fun np_exp :: "npfloat \<Rightarrow> npfloat" where
  "np_exp (Fin a) = Fin (exp a)"
| "np_exp PInf = PInf"
| "np_exp NInf = Fin 0"
| "np_exp NaN = NaN"

fun np_log :: "npfloat \<Rightarrow> npfloat" where
  "np_log (Fin a) = (if 0 < a then Fin (ln a) else if a = 0 then NInf else NaN)"
| "np_log PInf = PInf"
| "np_log NInf = NaN"
| "np_log NaN = NaN"

text \<open>\<^verbatim>\<open>x >= y\<close>: every comparison with \<^verbatim>\<open>nan\<close> is false.\<close>

fun np_ge :: "npfloat \<Rightarrow> npfloat \<Rightarrow> bool" where
  "np_ge (Fin a) (Fin b) = (b \<le> a)"
| "np_ge NaN _ = False"
| "np_ge _ NaN = False"
| "np_ge PInf _ = True"
| "np_ge _ NInf = True"
| "np_ge _ PInf = False"
| "np_ge NInf _ = False"

text \<open>
  \<^verbatim>\<open>p ** k\<close> for a float \<^verbatim>\<open>p\<close> and an integer \<^verbatim>\<open>k\<close> in numpy: zero to a negative power
  is \<^verbatim>\<open>inf\<close>.
\<close>

definition np_pow_int :: "real \<Rightarrow> int \<Rightarrow> npfloat" where
  "np_pow_int p k = (if p = 0 \<and> k < 0 then PInf else Fin (p powi k))"

text \<open>
  Python's builtin \<^verbatim>\<open>sum\<close> over an array: it starts from \<^verbatim>\<open>0\<close> and adds the elements
  from left to right.
\<close>

definition np_sum :: "npfloat list \<Rightarrow> npfloat" where
  "np_sum xs = foldl np_add (Fin 0) xs"

text \<open>\<^verbatim>\<open>np.arange(lo, hi)\<close> on integers: \<^verbatim>\<open>lo, lo + 1, ..., hi - 1\<close>.\<close>

definition arange :: "int \<Rightarrow> int \<Rightarrow> int list" where
  "arange lo hi = [lo ..hi - 1]"

subsection \<open>Arguments of the integer-valued distributions\<close>

text \<open>
  \<^verbatim>\<open>gamma_agsne\<close> and \<^verbatim>\<open>sad_agsne\<close> test their argument with \<^verbatim>\<open>isinstance(x, int)\<close>,
  so the run-time type of a number matters there. \<open>PyInt\<close> is a value whose type is
  \<^verbatim>\<open>int\<close> or a subclass of it, \<open>PyFloat\<close> a float, and \<open>NpInt\<close> an integer-valued scalar
  of a type that does not derive from \<^verbatim>\<open>int\<close>: a numpy integer scalar type outside the
  class hierarchy of \<^verbatim>\<open>int\<close>. Which numpy types those are is a matter of the numpy build
  and not of this module.
\<close>

datatype pynum = PyInt int | PyFloat real | NpInt int

fun num_val :: "pynum \<Rightarrow> real" where
  "num_val (PyInt i) = real_of_int i"
| "num_val (PyFloat r) = r"
| "num_val (NpInt i) = real_of_int i"

fun isinstance_int :: "pynum \<Rightarrow> bool" where
  "isinstance_int (PyInt i) = True"
| "isinstance_int (PyFloat r) = False"
| "isinstance_int (NpInt i) = False"

section \<open>The upper truncated logseries distribution\<close>

text \<open>
  \<^verbatim>\<open>trunc_logser_gen._pmf(self, x, p, upper_bound)\<close>, at one element \<^verbatim>\<open>x\<close> of the
  array of arguments. The method reads no attribute of \<^verbatim>\<open>self\<close>.
\<close>

definition trunc_logser_pmf :: "int \<Rightarrow> real \<Rightarrow> int \<Rightarrow> npfloat" where
  "trunc_logser_pmf x p upper_bound =
     (let ivals = arange 1 (upper_bound + 1);
          normalization = np_sum (map (\<lambda>i. np_div (np_pow_int p i) (Fin (real_of_int i))) ivals);
          pmf = np_div (np_div (np_pow_int p x) (Fin (real_of_int x))) normalization
      in pmf)"

section \<open>External collaborators\<close>

text \<open>
  The module calls functions that live outside it. Each is a parameter of the methods
  that use it:
  \<^item> \<open>get_beta\<close>, \<open>get_lambda2\<close>: the Lagrange-multiplier solver of module \<^verbatim>\<open>mete\<close>;
  \<^item> \<open>get_integral\<close>: \<^verbatim>\<open>get_integral_for_psi_cdf\<close> of \<^verbatim>\<open>mete_psi_integration\<close>;
  \<^item> \<open>bisect\<close>: \<^verbatim>\<open>scipy.optimize.bisect(f, lo, hi, xtol = ...)\<close>;
  \<^item> \<open>quad\<close>: \<^verbatim>\<open>mpmath.quad(f, [lo, hi])\<close>;
  \<^item> \<open>uniform_rvs\<close>: \<^verbatim>\<open>scipy.stats.uniform.rvs(size = size)\<close>, the list of draws it
    delivers for a requested size;
  \<^item> the successive values of \<^verbatim>\<open>trunc_expon.rvs\<close>, as a list of draws.
\<close>

type_synonym bisect_fun = "(real \<Rightarrow> error + real) \<Rightarrow> real \<Rightarrow> real \<Rightarrow> real \<Rightarrow> error + real"
type_synonym quad_fun = "(real \<Rightarrow> error + real) \<Rightarrow> real \<Rightarrow> real \<Rightarrow> error + real"

definition xtol :: real where
  "xtol = 1490116 / 10 ^ 14"

text \<open>
  A method takes the object and returns its result together with the object as the call
  leaves it.
\<close>

section \<open>Class \<^verbatim>\<open>psi_epsilon\<close>\<close>

text \<open>Attribute \<^verbatim>\<open>self.f\<close> of \<^verbatim>\<open>psi_epsilon\<close> is the field \<open>pe_f\<close>.\<close>

record psi_epsilon =
  pe_a :: real
  pe_b :: real
  pe_N0 :: int
  pe_beta :: real
  pe_lambda2 :: real
  pe_sigma :: real
  pe_norm_factor :: real


definition psi_epsilon_pdf :: "psi_epsilon \<Rightarrow> real \<Rightarrow> (error + real) \<times> psi_epsilon" where
  "psi_epsilon_pdf self x =
     (let exp_neg_gamma = exp (- (pe_beta self + (x - 1) * pe_lambda2 self)) in
      if pe_a self \<le> x \<and> x \<le> pe_b self then
        py_div (pe_norm_factor self * exp_neg_gamma *
                  (1 - real_of_int (pe_N0 self + 1) * exp_neg_gamma powi pe_N0 self
                     + real_of_int (pe_N0 self) * exp_neg_gamma powi (pe_N0 self + 1)))
               ((1 - exp_neg_gamma) ^ 2)
      else Inr 0,
      self)"

definition psi_epsilon_cdf ::
  "(real \<Rightarrow> real \<Rightarrow> real \<Rightarrow> int \<Rightarrow> error + real) \<Rightarrow> psi_epsilon \<Rightarrow> real \<Rightarrow>
   (error + real) \<times> psi_epsilon" where
  "psi_epsilon_cdf get_integral self x =
     (let int_start = exp (- pe_beta self);
          int_end = exp (- (pe_beta self + (x - 1) * pe_lambda2 self)) in
      bindE (py_div (pe_norm_factor self) (pe_lambda2 self)) (\<lambda>scale.
      bindE (py_div 1 (1 - int_start)) (\<lambda>t1.
      bindE (py_div 1 (1 - int_end)) (\<lambda>t2.
      bindE (get_integral x (pe_beta self) (pe_lambda2 self) (pe_N0 self)) (\<lambda>t3.
      Inr (scale * (t1 - t2 + t3)))))),
      self)"

definition psi_epsilon_ppf ::
  "bisect_fun \<Rightarrow> (real \<Rightarrow> real \<Rightarrow> real \<Rightarrow> int \<Rightarrow> error + real) \<Rightarrow> psi_epsilon \<Rightarrow> real \<Rightarrow>
   (error + real) \<times> psi_epsilon" where
  "psi_epsilon_ppf bisect get_integral self q =
     (let y = (\<lambda>t. bindE (fst (psi_epsilon_cdf get_integral self t)) (\<lambda>c. Inr (c - q)));
          x = bisect y (pe_a self) (pe_b self) xtol
      in (x, self))"

definition psi_epsilon_rvs ::
  "(nat \<Rightarrow> real list) \<Rightarrow> bisect_fun \<Rightarrow> (real \<Rightarrow> real \<Rightarrow> real \<Rightarrow> int \<Rightarrow> error + real) \<Rightarrow>
   psi_epsilon \<Rightarrow> nat \<Rightarrow> (error + real list) \<times> psi_epsilon" where
  "psi_epsilon_rvs uniform_rvs bisect get_integral self size' =
     (let rand_list = uniform_rvs size' in
      (mapE (\<lambda>rand_num. fst (psi_epsilon_ppf bisect get_integral self rand_num)) rand_list,
       self))"

definition psi_epsilon_E :: "quad_fun \<Rightarrow> psi_epsilon \<Rightarrow> (error + real) \<times> psi_epsilon" where
  "psi_epsilon_E quad self =
     (let mom_1 = (\<lambda>x. bindE (fst (psi_epsilon_pdf self x)) (\<lambda>d. Inr (x * d)))
      in (quad mom_1 (pe_a self) (pe_b self), self))"

section \<open>Class \<^verbatim>\<open>psi_epsilon_approx\<close>\<close>

text \<open>Attribute \<^verbatim>\<open>self.f\<close> of \<^verbatim>\<open>psi_epsilon_approx\<close> is the field \<open>pa_f\<close>.\<close>

record psi_epsilon_approx =
  pa_a :: real
  pa_b :: real
  pa_N0 :: int
  pa_beta :: real
  pa_lambda2 :: real
  pa_sigma :: real
  pa_norm_factor :: real

definition psi_epsilon_approx_init ::
  "(int \<Rightarrow> int \<Rightarrow> error + real) \<Rightarrow> (int \<Rightarrow> int \<Rightarrow> real \<Rightarrow> error + real) \<Rightarrow>
   int \<Rightarrow> int \<Rightarrow> real \<Rightarrow> error + psi_epsilon_approx" where
  "psi_epsilon_approx_init get_beta get_lambda2 S0 N0 E0 =
     bindE (get_beta S0 N0) (\<lambda>beta.
     bindE (get_lambda2 S0 N0 E0) (\<lambda>lambda2.
     let sigma = beta + (E0 - 1) * lambda2 in
     bindE (py_div 1 (1 - exp (- beta))) (\<lambda>t1.
     bindE (py_div 1 (1 - exp (- sigma))) (\<lambda>t2.
     bindE (py_div (t1 - t2) lambda2) (\<lambda>norm_factor.
     Inr \<lparr>pa_a = 1, pa_b = E0, pa_N0 = N0, pa_beta = beta, pa_lambda2 = lambda2,
          pa_sigma = sigma, pa_norm_factor = norm_factor\<rparr>)))))"

definition psi_epsilon_approx_pdf ::
  "psi_epsilon_approx \<Rightarrow> real \<Rightarrow> (error + real) \<times> psi_epsilon_approx" where
  "psi_epsilon_approx_pdf self x =
     (let exp_neg_gamma = exp (- (pa_beta self + (x - 1) * pa_lambda2 self)) in
      if pa_a self \<le> x \<and> x \<le> pa_b self then
        bindE (py_div exp_neg_gamma ((1 - exp_neg_gamma) ^ 2)) (\<lambda>t.
        py_div t (pa_norm_factor self))
      else Inr 0,
      self)"

definition psi_epsilon_approx_cdf ::
  "psi_epsilon_approx \<Rightarrow> real \<Rightarrow> (error + real) \<times> psi_epsilon_approx" where
  "psi_epsilon_approx_cdf self x =
     (if pa_a self \<le> x \<and> x \<le> pa_b self then
        let exp_neg_gamma = exp (- (pa_beta self + (x - 1) * pa_lambda2 self)) in
        bindE (py_div 1 (1 - exp (- pa_beta self))) (\<lambda>t1.
        bindE (py_div 1 (1 - exp_neg_gamma)) (\<lambda>t2.
        bindE (py_div (t1 - t2) (pa_lambda2 self)) (\<lambda>unscaled_cdf.
        py_div unscaled_cdf (pa_norm_factor self))))
      else if x < pa_a self then Inr 0
      else Inr 1,
      self)"

definition psi_epsilon_approx_ppf ::
  "psi_epsilon_approx \<Rightarrow> real \<Rightarrow> (error + real) \<times> psi_epsilon_approx" where
  "psi_epsilon_approx_ppf self q =
     (bindE (py_div 1 (1 - exp (- pa_beta self))) (\<lambda>t1.
      bindE (py_div 1 (t1 - q * pa_norm_factor self * pa_lambda2 self)) (\<lambda>t2.
      bindE (py_log (1 - t2)) (\<lambda>m.
      py_div (- m - (pa_beta self - pa_lambda2 self)) (pa_lambda2 self)))),
      self)"

definition psi_epsilon_approx_rvs ::
  "(nat \<Rightarrow> real list) \<Rightarrow> psi_epsilon_approx \<Rightarrow> nat \<Rightarrow> (error + real list) \<times> psi_epsilon_approx" where
  "psi_epsilon_approx_rvs uniform_rvs self size' =
     (let rand_list = uniform_rvs size' in
      (mapE (\<lambda>rand_num. fst (psi_epsilon_approx_ppf self rand_num)) rand_list, self))"

section \<open>Class \<^verbatim>\<open>theta_epsilon\<close>\<close>

text \<open>Attribute \<^verbatim>\<open>self.f\<close> of \<^verbatim>\<open>theta_epsilon\<close> is the field \<open>te_f\<close>.\<close>

record theta_epsilon =
  te_a :: real
  te_b :: real
  te_beta :: real
  te_lambda2 :: real
  te_lambda1 :: real
  te_sigma :: real


definition theta_epsilon_pdf ::
  "theta_epsilon \<Rightarrow> real \<Rightarrow> int \<Rightarrow> (error + real) \<times> theta_epsilon" where
  "theta_epsilon_pdf self x n =
     (let pdf = py_div (te_lambda2 self * real_of_int n *
                          exp (- (te_lambda1 self + te_lambda2 self * x) * real_of_int n))
                       (exp (- te_beta self * real_of_int n) - exp (- te_sigma self * real_of_int n))
      in (pdf, self))"

definition theta_epsilon_logpdf ::
  "theta_epsilon \<Rightarrow> real \<Rightarrow> int \<Rightarrow> npfloat \<times> theta_epsilon" where
  "theta_epsilon_logpdf self x n =
     (let logpdf =
            np_sub (np_sub (np_add (np_log (Fin (te_lambda2 self))) (np_log (Fin (real_of_int n))))
                           (Fin ((te_lambda1 self + te_lambda2 self * x) * real_of_int n)))
                   (np_log (Fin (exp (- te_beta self * real_of_int n)
                                   - exp (- te_sigma self * real_of_int n))))
      in (logpdf, self))"

definition theta_epsilon_cdf ::
  "quad_fun \<Rightarrow> theta_epsilon \<Rightarrow> real \<Rightarrow> int \<Rightarrow> (error + real) \<times> theta_epsilon" where
  "theta_epsilon_cdf quad self x n =
     (let pdf_n = (\<lambda>x. fst (theta_epsilon_pdf self x n));
          cdf = quad pdf_n 1 x
      in (cdf, self))"

definition theta_epsilon_ppf ::
  "bisect_fun \<Rightarrow> quad_fun \<Rightarrow> theta_epsilon \<Rightarrow> int \<Rightarrow> real \<Rightarrow> (error + real) \<times> theta_epsilon" where
  "theta_epsilon_ppf bisect quad self n q =
     (let y = (\<lambda>t. bindE (fst (theta_epsilon_cdf quad self t n)) (\<lambda>c. Inr (c - q)));
          x = bisect y (te_a self) (te_b self) xtol
      in (x, self))"

text \<open>
  One pass of the rejection loop of \<^verbatim>\<open>theta_epsilon.rvs\<close>: draw, and draw again while the
  value exceeds \<^verbatim>\<open>self.b\<close>. The result is the accepted value and the draws that are left,
  or \<open>None\<close> when the supplied draws are used up before one is accepted.
\<close>

fun theta_epsilon_draw :: "real \<Rightarrow> real list \<Rightarrow> (real \<times> real list) option" where
  "theta_epsilon_draw b [] = None"
| "theta_epsilon_draw b (rand_exp # draws) =
     (if rand_exp > b then theta_epsilon_draw b draws else Some (rand_exp, draws))"

fun theta_epsilon_rvs_loop :: "real \<Rightarrow> nat \<Rightarrow> real list \<Rightarrow> real list \<Rightarrow> real list option" where
  "theta_epsilon_rvs_loop b 0 draws out = Some out"
| "theta_epsilon_rvs_loop b (Suc k) draws out =
     (case theta_epsilon_draw b draws of
        None \<Rightarrow> None
      | Some (rand_exp, draws') \<Rightarrow> theta_epsilon_rvs_loop b k draws' (out @ [rand_exp]))"

definition theta_epsilon_rvs ::
  "real list \<Rightarrow> theta_epsilon \<Rightarrow> int \<Rightarrow> nat \<Rightarrow> real list option \<times> theta_epsilon" where
  "theta_epsilon_rvs draws self n size' = (theta_epsilon_rvs_loop (te_b self) size' draws [], self)"

definition theta_epsilon_E ::
  "quad_fun \<Rightarrow> theta_epsilon \<Rightarrow> int \<Rightarrow> (error + real) \<times> theta_epsilon" where
  "theta_epsilon_E quad self n =
     (let mom_1 = (\<lambda>x. bindE (fst (theta_epsilon_pdf self x n)) (\<lambda>d. Inr (x * d)))
      in (quad mom_1 (te_a self) (te_b self), self))"

section \<open>Class \<^verbatim>\<open>gamma_agsne\<close>\<close>

text \<open>
  The AGSNE classes are constructed from \<^verbatim>\<open>statvar = [G, S, N, E]\<close> and
  \<^verbatim>\<open>pars = [lambda1, beta, lambda3, z]\<close>. Attribute \<^verbatim>\<open>self.f\<close> of \<^verbatim>\<open>gamma_agsne\<close> is the
  field \<open>ga_f\<close>.
\<close>

type_synonym statvar = "int \<times> int \<times> int \<times> real"
type_synonym pars = "real \<times> real \<times> real \<times> real"

record gamma_agsne =
  ga_G :: int
  ga_S :: int
  ga_N :: int
  ga_E :: real
  ga_a :: int
  ga_b :: int
  ga_lambda1 :: real
  ga_beta :: real
  ga_lambda3 :: real
  ga_z :: real
  ga_norm :: npfloat

text \<open>
  The expression \<^verbatim>\<open>np.exp(-lambda1 * x) * np.log(1 / (1 - np.exp(-beta * x)))\<close>, which the
  constructor, \<^verbatim>\<open>pmf\<close> and \<^verbatim>\<open>cdf\<close> each write out.
\<close>

definition gamma_kernel :: "real \<Rightarrow> real \<Rightarrow> real \<Rightarrow> npfloat" where
  "gamma_kernel lambda1 beta x =
     np_mul (np_exp (Fin (- lambda1 * x)))
            (np_log (np_div (Fin 1) (np_sub (Fin 1) (np_exp (Fin (- beta * x))))))"

definition gamma_agsne_init :: "statvar \<Rightarrow> pars \<Rightarrow> gamma_agsne" where
  "gamma_agsne_init sv ps =
     (case sv of (G, S, N, E) \<Rightarrow>
      case ps of (lambda1, beta, lambda3, z) \<Rightarrow>
      let S_list = arange 1 (S + 1);
          norm = np_sum (map (\<lambda>i. np_div (gamma_kernel lambda1 beta (real_of_int i))
                                          (Fin (real_of_int i))) S_list)
      in \<lparr>ga_G = G, ga_S = S, ga_N = N, ga_E = E, ga_a = 1, ga_b = S,
           ga_lambda1 = lambda1, ga_beta = beta, ga_lambda3 = lambda3, ga_z = z,
           ga_norm = norm\<rparr>)"

definition gamma_agsne_pmf :: "gamma_agsne \<Rightarrow> pynum \<Rightarrow> npfloat \<times> gamma_agsne" where
  "gamma_agsne_pmf self x =
     (let pmf =
        (if (real_of_int (ga_a self) \<le> num_val x \<and> num_val x \<le> real_of_int (ga_b self))
            \<and> isinstance_int x
         then np_div (np_div (gamma_kernel (ga_lambda1 self) (ga_beta self) (num_val x))
                             (Fin (num_val x)))
                     (ga_norm self)
         else Fin 0)
      in (pmf, self))"

definition gamma_agsne_cdf :: "gamma_agsne \<Rightarrow> pynum \<Rightarrow> npfloat \<times> gamma_agsne" where
  "gamma_agsne_cdf self x =
     (let cdf =
        (if real_of_int (ga_a self) \<le> num_val x \<and> num_val x \<le> real_of_int (ga_b self) then
           let x_int = \<lfloor>num_val x\<rfloor>;
               x_list = arange (ga_a self) (x_int + 1)
           in np_div (np_sum (map (\<lambda>i. np_div (gamma_kernel (ga_lambda1 self) (ga_beta self)
                                                              (real_of_int i))
                                               (Fin (num_val x))) x_list))
                     (ga_norm self)
         else if num_val x < real_of_int (ga_a self) then Fin 0
         else Fin 1)
      in (cdf, self))"

section \<open>Class \<^verbatim>\<open>sad_agsne\<close>\<close>

text \<open>Attribute \<^verbatim>\<open>self.f\<close> of \<^verbatim>\<open>sad_agsne\<close> is the field \<open>sad_f\<close>.\<close>

record sad_agsne =
  sad_G :: int
  sad_S :: int
  sad_N :: int
  sad_E :: real
  sad_a :: int
  sad_b :: int
  sad_lambda1 :: real
  sad_beta :: real
  sad_lambda3 :: real
  sad_z :: real
  sad_norm :: npfloat

text \<open>
  The expression
  \<^verbatim>\<open>np.exp(-lambda1 - beta * x) / x / (1 - np.exp(-lambda1 - beta * x))\<close>, which the
  constructor, \<^verbatim>\<open>pmf\<close> and \<^verbatim>\<open>cdf\<close> each write out.
\<close>

definition sad_kernel :: "real \<Rightarrow> real \<Rightarrow> real \<Rightarrow> npfloat" where
  "sad_kernel lambda1 beta x =
     np_div (np_div (np_exp (Fin (- lambda1 - beta * x))) (Fin x))
            (np_sub (Fin 1) (np_exp (Fin (- lambda1 - beta * x))))"

definition sad_agsne_init :: "statvar \<Rightarrow> pars \<Rightarrow> sad_agsne" where
  "sad_agsne_init sv ps =
     (case sv of (G, S, N, E) \<Rightarrow>
      case ps of (lambda1, beta, lambda3, z) \<Rightarrow>
      let a = 1; b = N;
          norm = np_sum (map (\<lambda>i. sad_kernel lambda1 beta (real_of_int i)) (arange a (b + 1)))
      in \<lparr>sad_G = G, sad_S = S, sad_N = N, sad_E = E, sad_a = a, sad_b = b,
           sad_lambda1 = lambda1, sad_beta = beta, sad_lambda3 = lambda3, sad_z = z,
           sad_norm = norm\<rparr>)"

definition sad_agsne_pmf :: "sad_agsne \<Rightarrow> pynum \<Rightarrow> npfloat \<times> sad_agsne" where
  "sad_agsne_pmf self x =
     (let pmf =
        (if (real_of_int (sad_a self) \<le> num_val x \<and> num_val x \<le> real_of_int (sad_b self))
            \<and> isinstance_int x
         then np_div (sad_kernel (sad_lambda1 self) (sad_beta self) (num_val x)) (sad_norm self)
         else Fin 0)
      in (pmf, self))"

text \<open>
  \<^verbatim>\<open>logpmf\<close> returns a number, or prints a line and returns \<^verbatim>\<open>None\<close>. Its result is the
  list of printed lines and the returned value, \<open>None\<close> standing for Python's \<^verbatim>\<open>None\<close>;
  \<open>Inl\<close> is a raised exception.
\<close>

definition sad_agsne_logpmf ::
  "sad_agsne \<Rightarrow> pynum \<Rightarrow> (error + string list \<times> npfloat option) \<times> sad_agsne" where
  "sad_agsne_logpmf self x =
     (let logpmf =
        (if (real_of_int (sad_a self) \<le> num_val x \<and> num_val x \<le> real_of_int (sad_b self))
            \<and> isinstance_int x
         then Inr ([],
                Some (np_sub (np_sub (np_sub (Fin (- sad_lambda1 self - sad_beta self * num_val x))
                                             (np_log (Fin (num_val x))))
                                     (np_log (np_sub (Fin 1)
                                        (np_exp (Fin (- sad_lambda1 self - sad_beta self * num_val x))))))
                             (np_log (sad_norm self))))
         else Inr ([''Error: log(0) is undefined.''], None))
      in (logpmf, self))"

definition sad_agsne_cdf :: "sad_agsne \<Rightarrow> pynum \<Rightarrow> npfloat \<times> sad_agsne" where
  "sad_agsne_cdf self x =
     (let cdf =
        (if real_of_int (sad_a self) \<le> num_val x \<and> num_val x \<le> real_of_int (sad_b self) then
           let x_int = \<lfloor>num_val x\<rfloor>
           in np_div (np_sum (map (\<lambda>i. sad_kernel (sad_lambda1 self) (sad_beta self) (real_of_int i))
                                  (arange (sad_a self) (x_int + 1))))
                     (sad_norm self)
         else if num_val x < real_of_int (sad_a self) then Fin 0
         else Fin 1)
      in (cdf, self))"

text \<open>
  The inner loop of \<^verbatim>\<open>rvs\<close>: while \<^verbatim>\<open>cdf_cum >= rand_list[j]\<close>, append \<^verbatim>\<open>i\<close> and advance
  \<^verbatim>\<open>j\<close>; the function returns from inside the loop once \<^verbatim>\<open>j == size\<close>.
\<close>

datatype loop_exit = Return "int list" | Continue nat "int list"

function sad_rvs_inner ::
  "npfloat \<Rightarrow> real list \<Rightarrow> nat \<Rightarrow> int \<Rightarrow> nat \<Rightarrow> int list \<Rightarrow> error + loop_exit" where
  "sad_rvs_inner cdf_cum rand_list size' i j out =
     (if j < length rand_list then
        (if np_ge cdf_cum (Fin (rand_list ! j)) then
           (let out' = out @ [i]; j' = j + 1
            in if j' = size' then Inr (Return out')
               else sad_rvs_inner cdf_cum rand_list size' i j' out')
         else Inr (Continue j out))
      else Inl IndexError)"
  by pat_completeness auto
termination
  by (relation "measure (\<lambda>(cdf_cum, rand_list, size', i, j, out). length rand_list - j)") auto

declare sad_rvs_inner.simps [simp del]

text \<open>
  The outer loop, \<^verbatim>\<open>while i <= self.b + 1\<close>. When it ends without the inner loop having
  returned, the method falls off its end and returns \<^verbatim>\<open>None\<close>.
\<close>

function sad_rvs_outer ::
  "sad_agsne \<Rightarrow> real list \<Rightarrow> nat \<Rightarrow> int \<Rightarrow> nat \<Rightarrow> npfloat \<Rightarrow> int list \<Rightarrow> error + int list option" where
  "sad_rvs_outer self rand_list size' i j cdf_cum out =
     (if i \<le> sad_b self + 1 then
        (let cdf_cum' = np_add cdf_cum (fst (sad_agsne_pmf self (PyInt i)))
         in case sad_rvs_inner cdf_cum' rand_list size' i j out of
              Inl e \<Rightarrow> Inl e
            | Inr (Return out') \<Rightarrow> Inr (Some out')
            | Inr (Continue j' out') \<Rightarrow> sad_rvs_outer self rand_list size' (i + 1) j' cdf_cum' out')
      else Inr None)"
  by pat_completeness auto
termination
  by (relation "measure (\<lambda>(self, rand_list, size', i, j, cdf_cum, out). nat (sad_b self + 2 - i))")
     auto

declare sad_rvs_outer.simps [simp del]

definition sad_agsne_rvs ::
  "(nat \<Rightarrow> real list) \<Rightarrow> sad_agsne \<Rightarrow> nat \<Rightarrow> (error + int list option) \<times> sad_agsne" where
  "sad_agsne_rvs uniform_rvs self size' =
     (let rand_list = uniform_rvs size';
          rand_list = sort rand_list
      in (sad_rvs_outer self rand_list size' 1 0 (Fin 0) [], self))"

section \<open>Class \<^verbatim>\<open>psi_agsne\<close>\<close>

text \<open>Attribute \<^verbatim>\<open>self.f\<close> of \<^verbatim>\<open>psi_agsne\<close> is the field \<open>psi_f\<close>.\<close>

record psi_agsne =
  psi_G :: int
  psi_S :: int
  psi_N :: int
  psi_E :: real
  psi_a :: real
  psi_b :: real
  psi_lambda1 :: real
  psi_beta :: real
  psi_lambda3 :: real
  psi_z :: real
  psi_lambda2 :: real
  psi_exp_neg_lambda1 :: real
  psi_norm :: real

text \<open>
  The list comprehension shared by the constructor (at \<^verbatim>\<open>self.E\<close>) and \<^verbatim>\<open>cdf\<close> (at
  \<^verbatim>\<open>x\<close>): the terms
  \<^verbatim>\<open>exp(-lambda1 * m) * (1 / (1 - exp(-beta * m)) - 1 / (1 - exp(-(lambda2 + x * lambda3) * m)))\<close>
  for \<^verbatim>\<open>m\<close> in \<^verbatim>\<open>range(1, self.S + 1)\<close>.
\<close>

definition psi_agsne_cdf_term :: "real \<Rightarrow> real \<Rightarrow> real \<Rightarrow> real \<Rightarrow> real \<Rightarrow> int \<Rightarrow> error + real" where
  "psi_agsne_cdf_term lambda1 beta lambda2 lambda3 x m =
     bindE (py_div 1 (1 - exp (- beta * real_of_int m))) (\<lambda>t1.
     bindE (py_div 1 (1 - exp (- (lambda2 + x * lambda3) * real_of_int m))) (\<lambda>t2.
     Inr (exp (- lambda1 * real_of_int m) * (t1 - t2))))"

definition psi_agsne_init :: "statvar \<Rightarrow> pars \<Rightarrow> error + psi_agsne" where
  "psi_agsne_init sv ps =
     (case sv of (G, S, N, E) \<Rightarrow>
      case ps of (lambda1, beta, lambda3, z) \<Rightarrow>
      let lambda2 = beta - lambda3;
          exp_neg_lambda1 = exp (- lambda1)
      in bindE (py_div 1 lambda3) (\<lambda>scale.
         bindE (mapE (psi_agsne_cdf_term lambda1 beta lambda2 lambda3 E) (arange 1 (S + 1))) (\<lambda>terms.
         Inr \<lparr>psi_G = G, psi_S = S, psi_N = N, psi_E = E, psi_a = 1, psi_b = E,
              psi_lambda1 = lambda1, psi_beta = beta, psi_lambda3 = lambda3, psi_z = z,
              psi_lambda2 = lambda2, psi_exp_neg_lambda1 = exp_neg_lambda1,
              psi_norm = scale * sum_list terms\<rparr>)))"

text \<open>
  \<^verbatim>\<open>pdf\<close> takes the bound of its sum from the bare name \<^verbatim>\<open>S\<close>, which Python looks up in
  the module's global namespace, not in the object. \<open>S_global\<close> is what that namespace
  holds under the name: \<open>None\<close> when the name is not bound, and the lookup raises
  \<^verbatim>\<open>NameError\<close>.
\<close>

definition psi_agsne_pdf ::
  "int option \<Rightarrow> psi_agsne \<Rightarrow> real \<Rightarrow> (error + real) \<times> psi_agsne" where
  "psi_agsne_pdf S_global self x =
     (let exp_neg_gamma = exp (- (psi_lambda2 self + x * psi_lambda3 self)) in
      if psi_a self \<le> x \<and> x \<le> psi_b self then
        (case S_global of
           None \<Rightarrow> Inl NameError
         | Some S \<Rightarrow>
             bindE (mapE (\<lambda>m. py_div (real_of_int m * (exp_neg_gamma * psi_exp_neg_lambda1 self) powi m)
                                     ((1 - exp_neg_gamma powi m) ^ 2))
                         (arange 1 (S + 1))) (\<lambda>sum_list'.
             py_div (sum_list sum_list') (psi_norm self)))
      else Inr 0,
      self)"

definition psi_agsne_cdf :: "psi_agsne \<Rightarrow> real \<Rightarrow> (error + real) \<times> psi_agsne" where
  "psi_agsne_cdf self x =
     (bindE (py_div 1 (psi_lambda3 self)) (\<lambda>scale.
      bindE (mapE (psi_agsne_cdf_term (psi_lambda1 self) (psi_beta self) (psi_lambda2 self)
                                      (psi_lambda3 self) x)
                  (arange 1 (psi_S self + 1))) (\<lambda>terms.
      let unscaled_cdf = scale * sum_list terms in
      if psi_a self \<le> x \<and> x \<le> psi_b self then py_div unscaled_cdf (psi_norm self)
      else if x < psi_a self then Inr 0
      else Inr 1)),
      self)"

definition psi_agsne_ppf :: "bisect_fun \<Rightarrow> psi_agsne \<Rightarrow> real \<Rightarrow> (error + real) \<times> psi_agsne" where
  "psi_agsne_ppf bisect self q =
     (let y = (\<lambda>t. bindE (fst (psi_agsne_cdf self t)) (\<lambda>c. Inr (c - q)));
          x = bisect y (psi_a self) (psi_b self) xtol
      in (x, self))"

definition psi_agsne_rvs ::
  "(nat \<Rightarrow> real list) \<Rightarrow> bisect_fun \<Rightarrow> psi_agsne \<Rightarrow> nat \<Rightarrow> (error + real list) \<times> psi_agsne" where
  "psi_agsne_rvs uniform_rvs bisect self size' =
     (let rand_list = uniform_rvs size' in
      (mapE (\<lambda>rand_num. fst (psi_agsne_ppf bisect self rand_num)) rand_list, self))"

section \<open>Class \<^verbatim>\<open>theta_agsne\<close>\<close>

text \<open>Attribute \<^verbatim>\<open>self.f\<close> of \<^verbatim>\<open>theta_agsne\<close> is the field \<open>th_f\<close>.\<close>

record theta_agsne =
  th_G :: int
  th_S :: int
  th_N :: int
  th_E :: real
  th_a :: real
  th_b :: real
  th_lambda1 :: real
  th_beta :: real
  th_lambda3 :: real
  th_z :: real

definition theta_agsne_init :: "statvar \<Rightarrow> pars \<Rightarrow> theta_agsne" where
  "theta_agsne_init sv ps =
     (case sv of (G, S, N, E) \<Rightarrow>
      case ps of (lambda1, beta, lambda3, z) \<Rightarrow>
      \<lparr>th_G = G, th_S = S, th_N = N, th_E = E, th_a = 1, th_b = E,
       th_lambda1 = lambda1, th_beta = beta, th_lambda3 = lambda3, th_z = z\<rparr>)"

definition theta_agsne_pdf ::
  "theta_agsne \<Rightarrow> real \<Rightarrow> int \<Rightarrow> int \<Rightarrow> (error + real) \<times> theta_agsne" where
  "theta_agsne_pdf self x m n =
     (let pdf =
        (if th_a self \<le> x \<and> x \<le> th_b self then
           bindE (py_div (th_lambda3 self * real_of_int m * real_of_int n)
                         (exp (- th_lambda3 self * real_of_int m * real_of_int n)
                            - exp (- th_lambda3 self * real_of_int m * real_of_int n * th_E self)))
                 (\<lambda>t. Inr (t * exp (- th_lambda3 self * real_of_int m * real_of_int n * x)))
         else Inr 0)
      in (pdf, self))"

definition theta_agsne_cdf ::
  "theta_agsne \<Rightarrow> real \<Rightarrow> int \<Rightarrow> int \<Rightarrow> (error + real) \<times> theta_agsne" where
  "theta_agsne_cdf self x m n =
     (let cdf =
        (if th_a self \<le> x \<and> x \<le> th_b self then
           py_div (exp (- th_lambda3 self * real_of_int m * real_of_int n)
                     - exp (- th_lambda3 self * real_of_int m * real_of_int n * x))
                  (exp (- th_lambda3 self * real_of_int m * real_of_int n)
                     - exp (- th_lambda3 self * real_of_int m * real_of_int n * th_E self))
         else if x < th_a self then Inr 0
         else Inr 1)
      in (cdf, self))"

definition theta_agsne_ppf ::
  "theta_agsne \<Rightarrow> real \<Rightarrow> int \<Rightarrow> int \<Rightarrow> (error + real) \<times> theta_agsne" where
  "theta_agsne_ppf self q m n =
     (let ans =
        bindE (py_div (- 1) (th_lambda3 self)) (\<lambda>t1.
        bindE (py_div t1 (real_of_int m)) (\<lambda>t2.
        bindE (py_div t2 (real_of_int n)) (\<lambda>t3.
        bindE (py_log (exp (- th_lambda3 self * real_of_int m * real_of_int n)
                        - q * (exp (- th_lambda3 self * real_of_int m * real_of_int n)
                                 - exp (- th_lambda3 self * real_of_int m * real_of_int n * th_E self))))
              (\<lambda>l. Inr (t3 * l)))))
      in (ans, self))"

definition theta_agsne_rvs ::
  "(nat \<Rightarrow> real list) \<Rightarrow> theta_agsne \<Rightarrow> nat \<Rightarrow> int \<Rightarrow> int \<Rightarrow> (error + real list) \<times> theta_agsne" where
  "theta_agsne_rvs uniform_rvs self size' m n =
     (let rand_list = uniform_rvs size' in
      (mapE (\<lambda>rand_num. fst (theta_agsne_ppf self rand_num m n)) rand_list, self))"

definition theta_agsne_expected ::
  "theta_agsne \<Rightarrow> int \<Rightarrow> int \<Rightarrow> (error + real) \<times> theta_agsne" where
  "theta_agsne_expected self m n =
     (let ans =
        py_div (exp (- th_lambda3 self * real_of_int m * real_of_int n)
                  * (th_lambda3 self * real_of_int m * real_of_int n + 1)
                - exp (- th_lambda3 self * real_of_int m * real_of_int n * th_E self)
                  * (th_lambda3 self * real_of_int m * real_of_int n * th_E self + 1))
               (th_lambda3 self * real_of_int m * real_of_int n
                  * (exp (- th_lambda3 self * real_of_int m * real_of_int n)
                       - exp (- th_lambda3 self * real_of_int m * real_of_int n * th_E self)))
      in (ans, self))"

section \<open>Notions used to state the properties\<close>

text \<open>
  The real value of one term of the \<^verbatim>\<open>sad_agsne\<close> normalization, and the parameter sets
  for which every term is defined and positive: \<^verbatim>\<open>1 - exp(-lambda1 - beta * k)\<close> is
  positive for every \<open>k\<close> in \<open>1..N\<close>.
\<close>

definition sad_weight :: "real \<Rightarrow> real \<Rightarrow> int \<Rightarrow> real" where
  "sad_weight lambda1 beta k =
     exp (- lambda1 - beta * real_of_int k) / real_of_int k
       / (1 - exp (- lambda1 - beta * real_of_int k))"

definition proper_sad :: "int \<Rightarrow> real \<Rightarrow> real \<Rightarrow> bool" where
  "proper_sad N lambda1 beta \<longleftrightarrow> 1 \<le> N \<and> (\<forall>k\<in>{1..N}. 0 < lambda1 + beta * real_of_int k)"

text \<open>
  The integral of \<open>f\<close> over \<open>[lo, hi]\<close> is \<open>v\<close>, in Newton's sense: \<open>f\<close> has an
  antiderivative on the interval whose increment is \<open>v\<close>. By the fundamental theorem of
  calculus this is the value of the integral of \<open>f\<close>.
\<close>

definition newton_integral :: "(real \<Rightarrow> real) \<Rightarrow> real \<Rightarrow> real \<Rightarrow> real \<Rightarrow> bool" where
  "newton_integral f lo hi v \<longleftrightarrow>
     (\<exists>F. (\<forall>x. lo \<le> x \<and> x \<le> hi \<longrightarrow> (F has_real_derivative f x) (at x within {lo..hi}))
          \<and> F hi - F lo = v)"

text \<open>
  The formula that the specification gives for \<^verbatim>\<open>psi_agsne.pdf\<close>, in the specification's
  words and not taken from the code: \<open>1 / norm\<close> times the sum over \<open>m = 1..S\<close> of
  \<open>m q^m / (1 - q^m)\<^sup>2\<close> with \<open>q = exp(-(lambda2 + x lambda3)) exp(-lambda1)\<close>.
\<close>

definition psi_agsne_pdf_claimed :: "psi_agsne \<Rightarrow> real \<Rightarrow> real" where
  "psi_agsne_pdf_claimed self x =
     (let q = exp (- (psi_lambda2 self + x * psi_lambda3 self)) * exp (- psi_lambda1 self)
      in (1 / psi_norm self)
           * (\<Sum>m = 1..psi_S self. real_of_int m * q ^ nat m / (1 - q ^ nat m)\<^sup>2))"

text \<open>
  Two concrete objects: \<^verbatim>\<open>psi_agsne([1, 1, 1, 2], [log(2), log(2), log(2), 0])\<close>, and the
  \<^verbatim>\<open>theta_epsilon\<close> object for \<open>E0 = 2\<close> when the solver returns \<open>beta = 1\<close> and
  \<open>lambda2 = 1\<close>.
\<close>

definition psi_agsne_example :: psi_agsne where
  "psi_agsne_example =
     \<lparr>psi_G = 1, psi_S = 1, psi_N = 1, psi_E = 2, psi_a = 1, psi_b = 2,
      psi_lambda1 = ln 2, psi_beta = ln 2, psi_lambda3 = ln 2, psi_z = 0,
      psi_lambda2 = 0, psi_exp_neg_lambda1 = 1 / 2, psi_norm = 1 / (3 * ln 2)\<rparr>"


section \<open>Basic facts about the arithmetic layer\<close>

lemma bindE_Inr [simp]: "bindE (Inr v) f = f v"
  by (simp add: bindE_def)

lemma bindE_Inl [simp]: "bindE (Inl e) f = Inl e"
  by (simp add: bindE_def)

lemma py_div_nonzero: "b \<noteq> 0 \<Longrightarrow> py_div a b = Inr (a / b)"
  by (simp add: py_div_def)

lemma py_div_zero: "py_div a 0 = Inl ZeroDivisionError"
  by (simp add: py_div_def)


lemma mapE_Inr:
  "(\<And>x. x \<in> set xs \<Longrightarrow> f x = Inr (g x)) \<Longrightarrow> mapE f xs = Inr (map g xs)"
  by (induction xs) simp_all

lemma np_sum_Fin: "np_sum (map (\<lambda>i. Fin (f i)) xs) = Fin (sum_list (map f xs))"
proof -
  have "foldl np_add (Fin a) (map (\<lambda>i. Fin (f i)) xs) = Fin (a + sum_list (map f xs))" for a
    by (induction xs arbitrary: a) (simp_all add: add.assoc)
  from this[of 0] show ?thesis by (simp add: np_sum_def)
qed

lemma sum_list_upto: "sum_list (map f [1..n]) = (\<Sum>i = 1..n. f i)" for f :: "int \<Rightarrow> real"
  by (simp add: sum_list_distinct_conv_sum_set)

lemma bindE_eq_Inr: "bindE r f = Inr v \<longleftrightarrow> (\<exists>u. r = Inr u \<and> f u = Inr v)"
  by (cases r) simp_all




lemma exp_minus_ln2: "exp (- ln 2) = (1 / 2 :: real)"
  by (simp add: exp_minus inverse_eq_divide)

lemma exp_minus_2ln2: "exp (- (2 * ln 2)) = (1 / 4 :: real)"
proof -
  have "exp (- (2 * ln 2)) = exp (- ln 2) * exp (- ln (2::real))"
    by (simp add: exp_add[symmetric])
  then show ?thesis by (simp add: exp_minus_ln2)
qed


text \<open>The Newton integral determines its value.\<close>

lemma newton_integral_unique:
  assumes "newton_integral f lo hi v" "newton_integral f lo hi w" "lo \<le> hi"
  shows "v = w"
proof (cases "lo = hi")
  case True
  with assms show ?thesis by (auto simp: newton_integral_def)
next
  case False
  with assms have lt: "lo < hi" by simp
  from assms obtain F G where
    F: "\<And>x. lo \<le> x \<Longrightarrow> x \<le> hi \<Longrightarrow> (F has_real_derivative f x) (at x within {lo..hi})"
       "F hi - F lo = v"
    and G: "\<And>x. lo \<le> x \<Longrightarrow> x \<le> hi \<Longrightarrow> (G has_real_derivative f x) (at x within {lo..hi})"
       "G hi - G lo = w"
    by (auto simp: newton_integral_def)
  define H where "H = (\<lambda>x. F x - G x)"
  have H: "(H has_real_derivative 0) (at x within {lo..hi})" if "lo \<le> x" "x \<le> hi" for x
    unfolding H_def using DERIV_diff[OF F(1)[OF that] G(1)[OF that]] by simp
  have cont: "continuous_on {lo..hi} H"
    by (rule DERIV_continuous_on[where D = "\<lambda>x. 0"]) (use H in auto)
  have "DERIV H x :> 0" if "lo < x" "x < hi" for x
    using H[of x] that by (simp add: at_within_Icc_at)
  from DERIV_isconst_end[OF lt cont this] have "H hi = H lo" .
  with F(2) G(2) show ?thesis by (simp add: H_def)
qed

section \<open>The truncated logseries probability mass function\<close>

lemma trunc_logser_normalization:
  assumes "0 < p"
  shows "np_sum (map (\<lambda>i. np_div (np_pow_int p i) (Fin (real_of_int i))) (arange 1 (n + 1)))
           = Fin (\<Sum>i = 1..n. p ^ nat i / real_of_int i)"
proof -
  have "map (\<lambda>i. np_div (np_pow_int p i) (Fin (real_of_int i))) [1..n]
          = map (\<lambda>i. Fin (p ^ nat i / real_of_int i)) [1..n]"
    using assms by (intro map_cong) (auto simp: np_pow_int_def power_int_def)
  then have "np_sum (map (\<lambda>i. np_div (np_pow_int p i) (Fin (real_of_int i))) [1..n])
          = np_sum (map (\<lambda>i. Fin (p ^ nat i / real_of_int i)) [1..n])"
    by (rule arg_cong)
  then show ?thesis
    by (simp only: arange_def np_sum_Fin sum_list_upto add_diff_cancel_right')
qed

text \<open>
  Claim C1. For every integer \<open>x\<close> with \<open>1 \<le> x \<le> upper_bound\<close> and every \<open>p\<close> in
  \<open>(0, 1)\<close>, the probability mass function of the truncated logseries is
  \<open>(p^x / x) / Z\<close> with \<open>Z\<close> the sum of \<open>p^i / i\<close> over \<open>i = 1..upper_bound\<close>. For
  \<open>p = 1/2\<close> and \<open>upper_bound = 10\<close> the value at \<open>x = 1\<close> is \<open>(0.5 / 1)\<close> divided by
  \<open>Z = 44711 / 64512\<close>, that is \<open>32256 / 44711\<close>.
\<close>

theorem trunc_logser_pmf_formula:
  "(1 \<le> x \<and> x \<le> upper_bound \<and> 0 < p \<and> p < 1 \<longrightarrow>
      trunc_logser_pmf x p upper_bound =
        Fin ((p ^ nat x / real_of_int x) / (\<Sum>i = 1..upper_bound. p ^ nat i / real_of_int i)))
   \<and> trunc_logser_pmf 1 (1/2) 10
        = Fin ((1/2 / 1) / (\<Sum>i = 1..10::int. (1/2) ^ nat i / real_of_int i))
   \<and> trunc_logser_pmf 1 (1/2) 10 = Fin (32256 / 44711)"
proof -
  have gen: "trunc_logser_pmf x p upper_bound =
        Fin ((p ^ nat x / real_of_int x) / (\<Sum>i = 1..upper_bound. p ^ nat i / real_of_int i))"
    if "1 \<le> x" "x \<le> upper_bound" "0 < p" for x upper_bound p
  proof -
    have "0 < (\<Sum>i = 1..upper_bound. p ^ nat i / real_of_int i)"
      using that by (intro sum_pos) auto
    moreover have "np_pow_int p x = Fin (p ^ nat x)"
      using that by (simp add: np_pow_int_def power_int_def)
    ultimately show ?thesis
      using that by (simp add: trunc_logser_pmf_def trunc_logser_normalization)
  qed
  have Z: "(\<Sum>i = 1..10::int. (1/2::real) ^ nat i / real_of_int i) = 44711 / 64512"
    by (simp add: sum_list_upto[symmetric] upto.simps power_divide)
  have inst: "trunc_logser_pmf 1 (1/2) 10
                = Fin ((1/2 / 1) / (\<Sum>i = 1..10::int. (1/2) ^ nat i / real_of_int i))"
    using gen[of 1 10 "1/2"] by simp
  have val: "(1/2 / 1) / (\<Sum>i = 1..10::int. (1/2::real) ^ nat i / real_of_int i) = 32256 / 44711"
    unfolding Z by simp
  show ?thesis
    using gen inst val by (simp only: simp_thms) blast
qed

theorem trunc_logser_pmf_formula_witness:
  "(1::int) \<le> 2 \<and> (2::int) \<le> 10 \<and> (0::real) < 1/4 \<and> (1/4::real) < 1
   \<and> trunc_logser_pmf 2 (1/4) 10
       = Fin (((1/4) ^ nat 2 / real_of_int 2) / (\<Sum>i = 1..10::int. (1/4) ^ nat i / real_of_int i))"
  using trunc_logser_pmf_formula [of 2 10 "1/4"] by simp

section \<open>The probability density of \<^verbatim>\<open>psi_agsne\<close>\<close>

lemma psi_agsne_init_fields:
  assumes "psi_agsne_init (G, S, N, E) (lambda1, beta, lambda3, z) = Inr self"
  shows "psi_S self = S" "psi_E self = E" "psi_a self = 1" "psi_b self = E"
    "psi_lambda1 self = lambda1" "psi_beta self = beta" "psi_lambda3 self = lambda3"
    "psi_lambda2 self = beta - lambda3" "psi_exp_neg_lambda1 self = exp (- lambda1)"
    "lambda3 \<noteq> 0"
  using assms
  by (auto simp: psi_agsne_init_def bindE_eq_Inr Let_def py_div_def split: if_splits)

lemma psi_agsne_example_init:
  "psi_agsne_init (1, 1, 1, 2) (ln 2, ln 2, ln 2, 0) = Inr psi_agsne_example"
  by (simp add: psi_agsne_init_def psi_agsne_cdf_term_def arange_def upto.simps
      py_div_def exp_minus_ln2 exp_minus_2ln2 psi_agsne_example_def)

text \<open>
  When the module's namespace holds no \<^verbatim>\<open>S\<close>, every call of \<^verbatim>\<open>pdf\<close> inside the support
  raises \<^verbatim>\<open>NameError\<close>.
\<close>

lemma psi_agsne_pdf_unbound_name:
  "psi_a self \<le> x \<Longrightarrow> x \<le> psi_b self \<Longrightarrow> fst (psi_agsne_pdf None self x) = Inl NameError"
  by (simp add: psi_agsne_pdf_def Let_def)

text \<open>
  Claim C2, as the code has it. For every \<open>x\<close> with \<open>1 \<le> x \<le> E\<close>, when the name
  \<^verbatim>\<open>S\<close> that \<^verbatim>\<open>pdf\<close> reads is bound to the object's own \<open>S\<close>, \<^verbatim>\<open>psi_agsne.pdf(x)\<close> is the sum
  over \<open>m = 1..S\<close> of \<open>m (g exp(-lambda1))^m / (1 - g^m)\<^sup>2\<close> divided by the normalization
  constant of the constructor, where \<open>g = exp(-(lambda2 + x lambda3))\<close>: the denominator
  is built from \<open>g\<close> alone, without the factor \<open>exp(-lambda1)\<close>. The divisions are defined
  when \<open>lambda2 + x lambda3\<close> and the normalization constant are not zero.
\<close>

theorem psi_agsne_pdf_series:
  assumes init: "psi_agsne_init (G, S, N, E) (lambda1, beta, lambda3, z) = Inr self"
    and x: "1 \<le> x" "x \<le> E"
    and gamma: "beta - lambda3 + x * lambda3 \<noteq> 0"
    and norm: "psi_norm self \<noteq> 0"
  shows "fst (psi_agsne_pdf (Some S) self x) =
           Inr ((\<Sum>m = 1..S. real_of_int m
                    * (exp (- (beta - lambda3 + x * lambda3)) * exp (- lambda1)) ^ nat m
                    / (1 - exp (- (beta - lambda3 + x * lambda3)) ^ nat m)\<^sup>2)
                / psi_norm self)"
proof -
  define g where "g = exp (- (beta - lambda3 + x * lambda3))"
  define h where "h = (\<lambda>m. real_of_int m * (g * exp (- lambda1)) ^ nat m / (1 - g ^ nat m)\<^sup>2)"
  note f = psi_agsne_init_fields[OF init]
  have tm: "py_div (real_of_int m * (g * exp (- lambda1)) powi m) ((1 - g powi m)\<^sup>2) = Inr (h m)"
    if "m \<in> set (arange 1 (S + 1))" for m
  proof -
    from that have m: "1 \<le> m" by (simp add: arange_def)
    have "g ^ nat m = exp (- (beta - lambda3 + x * lambda3) * real (nat m))"
      unfolding g_def by (simp add: exp_of_nat2_mult[symmetric])
    moreover have "- (beta - lambda3 + x * lambda3) * real (nat m) \<noteq> 0"
      using gamma m by simp
    ultimately have "g ^ nat m \<noteq> 1" by (metis exp_eq_one_iff)
    then show ?thesis using m by (simp add: py_div_nonzero h_def power_int_def)
  qed
  have "mapE (\<lambda>m. py_div (real_of_int m * (g * exp (- lambda1)) powi m) ((1 - g powi m)\<^sup>2))
             (arange 1 (S + 1)) = Inr (map h (arange 1 (S + 1)))"
    by (rule mapE_Inr) (rule tm)
  moreover have "sum_list (map h (arange 1 (S + 1))) = (\<Sum>m = 1..S. h m)"
    by (simp add: arange_def sum_list_upto)
  ultimately have "fst (psi_agsne_pdf (Some S) self x) = Inr ((\<Sum>m = 1..S. h m) / psi_norm self)"
    using x norm
    by (simp add: psi_agsne_pdf_def f g_def[symmetric] py_div_nonzero
        del: minus_add_distrib minus_diff_eq)
  then show ?thesis by (simp add: h_def g_def)
qed

text \<open>The theorem at the example object and \<open>x = 1\<close>.\<close>

theorem psi_agsne_pdf_series_witness:
  "psi_agsne_init (1, 1, 1, 2) (ln 2, ln 2, ln 2, 0) = Inr psi_agsne_example
   \<and> (1::real) \<le> 1 \<and> (1::real) \<le> 2
   \<and> ln 2 - ln 2 + 1 * ln 2 \<noteq> (0::real)
   \<and> psi_norm psi_agsne_example \<noteq> 0
   \<and> fst (psi_agsne_pdf (Some 1) psi_agsne_example 1) =
       Inr ((\<Sum>m = 1..1. real_of_int m
                * (exp (- (ln 2 - ln 2 + 1 * ln 2)) * exp (- ln 2)) ^ nat m
                / (1 - exp (- (ln 2 - ln 2 + 1 * ln 2)) ^ nat m)\<^sup>2)
            / psi_norm psi_agsne_example)"
proof -
  have n: "psi_norm psi_agsne_example \<noteq> 0"
    by (simp add: psi_agsne_example_def)
  have g: "ln 2 - ln 2 + 1 * ln 2 \<noteq> (0::real)" by simp
  from psi_agsne_pdf_series [OF psi_agsne_example_init _ _ g n] psi_agsne_example_init n g
  show ?thesis by simp
qed

text \<open>
  The specification's formula fails on the example object, with \<^verbatim>\<open>S\<close> bound to the
  object's \<open>S = 1\<close>: at \<open>x = 1\<close> the code returns \<open>3 ln 2\<close> and the formula gives
  \<open>4/3 ln 2\<close>.
\<close>

theorem psi_agsne_pdf_counterexample:
  "psi_agsne_init (1, 1, 1, 2) (ln 2, ln 2, ln 2, 0) = Inr psi_agsne_example
   \<and> fst (psi_agsne_pdf (Some (psi_S psi_agsne_example)) psi_agsne_example 1) = Inr (3 * ln 2)
   \<and> psi_agsne_pdf_claimed psi_agsne_example 1 = 4 / 3 * ln 2
   \<and> 3 * ln 2 \<noteq> 4 / 3 * ln (2::real)"
proof -
  have pdf: "fst (psi_agsne_pdf (Some (psi_S psi_agsne_example)) psi_agsne_example 1) = Inr (3 * ln 2)"
    by (simp add: psi_agsne_pdf_def psi_agsne_example_def arange_def upto.simps py_div_def
        exp_minus_ln2 power2_eq_square)
  have claimed: "psi_agsne_pdf_claimed psi_agsne_example 1 = 4 / 3 * ln 2"
    by (simp add: psi_agsne_pdf_claimed_def psi_agsne_example_def exp_minus_ln2 power2_eq_square)
  have "3 * ln 2 \<noteq> 4 / 3 * ln (2::real)" by simp
  with psi_agsne_example_init pdf claimed show ?thesis by blast
qed

section \<open>The cumulative distribution of \<^verbatim>\<open>gamma_agsne\<close>\<close>

lemma gamma_kernel_1: "gamma_kernel 0 (ln 2) 1 = Fin (ln 2)"
  by (simp add: gamma_kernel_def np_sub_def exp_minus_ln2)

lemma gamma_kernel_2: "gamma_kernel 0 (ln 2) 2 = Fin (ln (4 / 3))"
proof -
  have e: "exp (- (ln 2 * 2)) = (1 / 4 :: real)"
    using exp_minus_2ln2 by (simp add: mult.commute)
  show ?thesis
    by (simp add: gamma_kernel_def np_sub_def e)
qed

lemma gamma_example_norm:
  "ga_norm (gamma_agsne_init (1, 2, 10, 100) (0, ln 2, 1, 1)) = Fin (ln 2 + ln (4 / 3) / 2)"
  by (simp add: gamma_agsne_init_def arange_def upto.simps np_sum_def gamma_kernel_1 gamma_kernel_2)

text \<open>
  Claim C3 says that \<^verbatim>\<open>gamma_agsne.cdf(x)\<close> is the cumulative sum of \<^verbatim>\<open>pmf(i)\<close> over
  \<open>i = 1..floor(x)\<close>, and that \<^verbatim>\<open>cdf(S) = 1\<close>. The code divides every term of its sum by
  the argument \<open>x\<close>, where \<^verbatim>\<open>pmf\<close> and the normalization divide the term of index \<open>i\<close> by
  \<open>i\<close>. On \<^verbatim>\<open>gamma_agsne([1, 2, 10, 100], [0, log(2), 1, 1])\<close> the two values of \<^verbatim>\<open>pmf\<close> add
  up to \<open>1\<close>, and \<^verbatim>\<open>cdf(2)\<close> is \<open>(ln 2 / 2 + ln (4/3) / 2) / (ln 2 + ln (4/3) / 2)\<close>, which is
  not \<open>1\<close>.
\<close>

theorem gamma_agsne_cdf_not_cumulative:
  "fst (gamma_agsne_cdf (gamma_agsne_init (1, 2, 10, 100) (0, ln 2, 1, 1)) (PyInt 2))
     = Fin ((ln 2 / 2 + ln (4 / 3) / 2) / (ln 2 + ln (4 / 3) / 2))
   \<and> np_add (fst (gamma_agsne_pmf (gamma_agsne_init (1, 2, 10, 100) (0, ln 2, 1, 1)) (PyInt 1)))
             (fst (gamma_agsne_pmf (gamma_agsne_init (1, 2, 10, 100) (0, ln 2, 1, 1)) (PyInt 2)))
       = Fin 1
   \<and> (ln 2 / 2 + ln (4 / 3) / 2) / (ln 2 + ln (4 / 3) / 2) \<noteq> (1::real)"
proof -
  let ?obj = "gamma_agsne_init (1, 2, 10, 100) (0, ln 2, 1, 1)"
  have pos: "0 < ln 2 + ln (4 / 3) / (2::real)"
    by (intro add_pos_pos) simp_all
  have fields: "ga_a ?obj = 1" "ga_b ?obj = 2" "ga_lambda1 ?obj = 0" "ga_beta ?obj = ln 2"
    by (simp_all add: gamma_agsne_init_def)
  have cdf: "fst (gamma_agsne_cdf ?obj (PyInt 2))
     = Fin ((ln 2 / 2 + ln (4 / 3) / 2) / (ln 2 + ln (4 / 3) / 2))"
    using pos
    by (simp add: gamma_agsne_cdf_def fields gamma_example_norm arange_def upto.simps np_sum_def
        gamma_kernel_1 gamma_kernel_2)
  have p1: "fst (gamma_agsne_pmf ?obj (PyInt 1)) = Fin (ln 2 / (ln 2 + ln (4 / 3) / 2))"
    using pos by (simp add: gamma_agsne_pmf_def fields gamma_example_norm gamma_kernel_1)
  have p2: "fst (gamma_agsne_pmf ?obj (PyInt 2)) = Fin (ln (4 / 3) / 2 / (ln 2 + ln (4 / 3) / 2))"
    using pos by (simp add: gamma_agsne_pmf_def fields gamma_example_norm gamma_kernel_2)
  have total: "np_add (fst (gamma_agsne_pmf ?obj (PyInt 1))) (fst (gamma_agsne_pmf ?obj (PyInt 2))) = Fin 1"
  proof -
    have "ln 2 / (ln 2 + ln (4 / 3) / 2) + ln (4 / 3) / 2 / (ln 2 + ln (4 / 3) / 2)
            = (ln 2 + ln (4 / 3) / 2) / (ln 2 + ln (4 / 3) / (2::real))"
      by (simp only: add_divide_distrib)
    also have "\<dots> = 1" using pos by simp
    finally show ?thesis unfolding p1 p2 by simp
  qed
  have ne: "(ln 2 / 2 + ln (4 / 3) / 2) / (ln 2 + ln (4 / 3) / 2) \<noteq> (1::real)"
  proof
    assume "(ln 2 / 2 + ln (4 / 3) / 2) / (ln 2 + ln (4 / 3) / 2) = (1::real)"
    with pos have "ln 2 / 2 + ln (4 / 3) / 2 = ln 2 + ln (4 / 3) / (2::real)"
      by (simp add: field_simps)
    then have "ln (2::real) = 0" by simp
    then show False by simp
  qed
  from cdf total ne show ?thesis by blast
qed

section \<open>The quantile function of \<^verbatim>\<open>psi_epsilon_approx\<close>\<close>



text \<open>
  At \<open>E0 = 1\<close> the support is the single point \<open>1\<close>, the normalization factor is \<open>0\<close>, and
  \<^verbatim>\<open>cdf(1)\<close> raises \<^verbatim>\<open>ZeroDivisionError\<close>: the hypothesis \<open>E0 > 1\<close> is needed.
\<close>

lemma psi_epsilon_approx_cdf_degenerate:
  assumes "get_beta S0 N0 = Inr beta" "get_lambda2 S0 N0 1 = Inr lambda2" "0 < beta" "0 < lambda2"
  shows "\<exists>self. psi_epsilon_approx_init get_beta get_lambda2 S0 N0 1 = Inr self
            \<and> fst (psi_epsilon_approx_cdf self 1) = Inl ZeroDivisionError"
  using assms
  by (simp add: psi_epsilon_approx_init_def psi_epsilon_approx_cdf_def py_div_def Let_def)

section \<open>Arguments below the support\<close>







text \<open>
  The condition cannot be dropped: on the example object, where \<open>lambda2 = 0\<close>,
  \<^verbatim>\<open>psi_agsne.cdf(0)\<close> raises \<^verbatim>\<open>ZeroDivisionError\<close>.
\<close>

lemma psi_agsne_cdf_below_raises:
  "fst (psi_agsne_cdf psi_agsne_example 0) = Inl ZeroDivisionError"
  by (simp add: psi_agsne_cdf_def psi_agsne_example_def psi_agsne_cdf_term_def arange_def
      upto.simps py_div_def exp_minus_ln2)




section \<open>Sampling from \<^verbatim>\<open>sad_agsne\<close>\<close>

text \<open>
  For proper parameters every term of the normalization is a positive real, and so are
  the normalization and every value of \<^verbatim>\<open>pmf\<close> on the support.
\<close>

lemma sad_kernel_Fin:
  assumes "0 < lambda1 + beta * real_of_int k" "1 \<le> k"
  shows "sad_kernel lambda1 beta (real_of_int k) = Fin (sad_weight lambda1 beta k)"
    and "0 < sad_weight lambda1 beta k"
proof -
  have "exp (- lambda1 - beta * real_of_int k) < 1"
    using assms by simp
  then have d: "0 < 1 - exp (- lambda1 - beta * real_of_int k)" by simp
  then show "sad_kernel lambda1 beta (real_of_int k) = Fin (sad_weight lambda1 beta k)"
    using assms by (simp add: sad_kernel_def sad_weight_def np_sub_def)
  show "0 < sad_weight lambda1 beta k"
    unfolding sad_weight_def using d assms by (intro divide_pos_pos) simp_all
qed

lemma sad_norm_Fin:
  assumes "proper_sad N lambda1 beta"
  shows "sad_norm (sad_agsne_init (G, S, N, E) (lambda1, beta, lambda3, z))
           = Fin (\<Sum>k = 1..N. sad_weight lambda1 beta k)"
    and "0 < (\<Sum>k = 1..N. sad_weight lambda1 beta k)"
proof -
  have "map (\<lambda>i. sad_kernel lambda1 beta (real_of_int i)) [1..N]
          = map (\<lambda>i. Fin (sad_weight lambda1 beta i)) [1..N]"
    using assms by (intro map_cong) (auto simp: proper_sad_def sad_kernel_Fin)
  then have "np_sum (map (\<lambda>i. sad_kernel lambda1 beta (real_of_int i)) [1..N])
          = np_sum (map (\<lambda>i. Fin (sad_weight lambda1 beta i)) [1..N])"
    by (rule arg_cong)
  then show "sad_norm (sad_agsne_init (G, S, N, E) (lambda1, beta, lambda3, z))
           = Fin (\<Sum>k = 1..N. sad_weight lambda1 beta k)"
    by (simp add: sad_agsne_init_def arange_def np_sum_Fin sum_list_upto)
  show "0 < (\<Sum>k = 1..N. sad_weight lambda1 beta k)"
    using assms by (intro sum_pos) (auto simp: proper_sad_def sad_kernel_Fin)
qed

lemma sad_pmf_Fin:
  assumes "proper_sad N lambda1 beta" "1 \<le> i" "i \<le> N"
  shows "fst (sad_agsne_pmf (sad_agsne_init (G, S, N, E) (lambda1, beta, lambda3, z)) (PyInt i))
           = Fin (sad_weight lambda1 beta i / (\<Sum>k = 1..N. sad_weight lambda1 beta k))"
proof -
  have k: "sad_kernel lambda1 beta (real_of_int i) = Fin (sad_weight lambda1 beta i)"
    using assms by (intro sad_kernel_Fin) (auto simp: proper_sad_def)
  have fields: "sad_a (sad_agsne_init (G, S, N, E) (lambda1, beta, lambda3, z)) = 1"
    "sad_b (sad_agsne_init (G, S, N, E) (lambda1, beta, lambda3, z)) = N"
    "sad_lambda1 (sad_agsne_init (G, S, N, E) (lambda1, beta, lambda3, z)) = lambda1"
    "sad_beta (sad_agsne_init (G, S, N, E) (lambda1, beta, lambda3, z)) = beta"
    by (simp_all add: sad_agsne_init_def)
  show ?thesis
    using assms(2,3) sad_norm_Fin(2)[OF assms(1)]
    by (simp add: sad_agsne_pmf_def fields sad_norm_Fin(1)[OF assms(1)] k)
qed



text \<open>
  With no draw requested the first test of the inner loop reads \<^verbatim>\<open>rand_list[0]\<close> of an
  empty list.
\<close>

lemma sad_agsne_rvs_size_zero:
  assumes "uniform_rvs 0 = []" "0 \<le> sad_b self"
  shows "fst (sad_agsne_rvs uniform_rvs self 0) = Inl IndexError"
proof -
  have "sad_rvs_inner c [] 0 1 0 [] = Inl IndexError" for c
    by (subst sad_rvs_inner.simps) simp
  then have "sad_rvs_outer self [] 0 1 0 (Fin 0) [] = Inl IndexError"
    using assms(2) by (subst sad_rvs_outer.simps) simp
  then show ?thesis
    using assms(1) by (simp add: sad_agsne_rvs_def)
qed



section \<open>The mean of \<^verbatim>\<open>theta_agsne\<close>\<close>



text \<open>
  At \<open>E = 1\<close> the denominator \<open>exp(-r) - exp(-r E)\<close> is \<open>0\<close> and \<^verbatim>\<open>expected\<close> raises
  \<^verbatim>\<open>ZeroDivisionError\<close>: the hypothesis \<open>E > 1\<close> is needed.
\<close>

lemma theta_agsne_expected_degenerate:
  "fst (theta_agsne_expected (theta_agsne_init (G, S, N, 1) (lambda1, beta, lambda3, z)) m n)
     = Inl ZeroDivisionError"
  by (simp add: theta_agsne_expected_def theta_agsne_init_def py_div_def)

section \<open>The logarithm of the \<^verbatim>\<open>sad_agsne\<close> probability mass\<close>

lemma sad_logpmf_value:
  assumes proper: "proper_sad N lambda1 beta" and i: "1 \<le> i" "i \<le> N"
  shows "fst (sad_agsne_logpmf (sad_agsne_init (G, S, N, E) (lambda1, beta, lambda3, z)) (PyInt i))
           = Inr ([], Some (Fin (ln (sad_weight lambda1 beta i
                                      / (\<Sum>k = 1..N. sad_weight lambda1 beta k)))))"
proof -
  define e where "e = exp (- lambda1 - beta * real_of_int i)"
  define Z where "Z = (\<Sum>k = 1..N. sad_weight lambda1 beta k)"
  have Z: "0 < Z" unfolding Z_def by (rule sad_norm_Fin(2)[OF proper])
  have "0 < lambda1 + beta * real_of_int i"
    using proper i by (simp add: proper_sad_def)
  then have e: "0 < e" "0 < 1 - e" by (simp_all add: e_def)
  have ri: "0 < real_of_int i" using i by simp
  have fields: "sad_a (sad_agsne_init (G, S, N, E) (lambda1, beta, lambda3, z)) = 1"
    "sad_b (sad_agsne_init (G, S, N, E) (lambda1, beta, lambda3, z)) = N"
    "sad_lambda1 (sad_agsne_init (G, S, N, E) (lambda1, beta, lambda3, z)) = lambda1"
    "sad_beta (sad_agsne_init (G, S, N, E) (lambda1, beta, lambda3, z)) = beta"
    by (simp_all add: sad_agsne_init_def)
  have "ln (sad_weight lambda1 beta i / Z) = ln (e / real_of_int i / (1 - e) / Z)"
    by (simp add: sad_weight_def e_def)
  also have "\<dots> = ln e - ln (real_of_int i) - ln (1 - e) - ln Z"
  proof -
    have p1: "0 < e / real_of_int i" using e(1) ri by (rule divide_pos_pos)
    have p2: "0 < e / real_of_int i / (1 - e)" using p1 e(2) by (rule divide_pos_pos)
    have "ln (e / real_of_int i / (1 - e) / Z) = ln (e / real_of_int i / (1 - e)) - ln Z"
      using p2 Z by (rule ln_divide_pos)
    also have "ln (e / real_of_int i / (1 - e)) = ln (e / real_of_int i) - ln (1 - e)"
      using p1 e(2) by (rule ln_divide_pos)
    also have "ln (e / real_of_int i) = ln e - ln (real_of_int i)"
      using e(1) ri by (rule ln_divide_pos)
    finally show ?thesis .
  qed
  also have "ln e = - lambda1 - beta * real_of_int i" by (simp add: e_def)
  finally have ln: "ln (sad_weight lambda1 beta i / Z)
      = - lambda1 - beta * real_of_int i - ln (real_of_int i) - ln (1 - e) - ln Z" .
  show ?thesis
    using i e ri Z
    by (simp add: sad_agsne_logpmf_def fields sad_norm_Fin(1)[OF proper] np_sub_def
        e_def[symmetric] Z_def[symmetric] ln)
qed

text \<open>
  Properness cannot be dropped: on \<^verbatim>\<open>sad_agsne([1, 1, 1, 10], [0, -log(2), 1, 1])\<close> the
  single term of the normalization is \<open>-2\<close>, so \<^verbatim>\<open>pmf(1)\<close> is \<open>1\<close>, with logarithm \<open>0\<close>,
  while \<^verbatim>\<open>logpmf(1)\<close> takes logarithms of negative numbers and returns \<^verbatim>\<open>nan\<close>.
\<close>

lemma sad_agsne_logpmf_improper:
  "fst (sad_agsne_pmf (sad_agsne_init (1, 1, 1, 10) (0, - ln 2, 1, 1)) (PyInt 1)) = Fin 1
   \<and> fst (sad_agsne_logpmf (sad_agsne_init (1, 1, 1, 10) (0, - ln 2, 1, 1)) (PyInt 1))
       = Inr ([], Some NaN)"
proof -
  have k: "sad_kernel 0 (- ln 2) 1 = Fin (- 2)"
    by (simp add: sad_kernel_def np_sub_def)
  have n: "sad_norm (sad_agsne_init (1, 1, 1, 10) (0, - ln 2, 1, 1)) = Fin (- 2)"
    by (simp add: sad_agsne_init_def arange_def upto.simps np_sum_def k)
  have fields: "sad_a (sad_agsne_init (1, 1, 1, 10) (0, - ln 2, 1, 1)) = 1"
    "sad_b (sad_agsne_init (1, 1, 1, 10) (0, - ln 2, 1, 1)) = 1"
    "sad_lambda1 (sad_agsne_init (1, 1, 1, 10) (0, - ln 2, 1, 1)) = 0"
    "sad_beta (sad_agsne_init (1, 1, 1, 10) (0, - ln 2, 1, 1)) = - ln 2"
    by (simp_all add: sad_agsne_init_def)
  have "fst (sad_agsne_pmf (sad_agsne_init (1, 1, 1, 10) (0, - ln 2, 1, 1)) (PyInt 1)) = Fin 1"
    by (simp add: sad_agsne_pmf_def fields n k)
  moreover have "fst (sad_agsne_logpmf (sad_agsne_init (1, 1, 1, 10) (0, - ln 2, 1, 1)) (PyInt 1))
       = Inr ([], Some NaN)"
    by (simp add: sad_agsne_logpmf_def fields n np_sub_def)
  ultimately show ?thesis by blast
qed

text \<open>
  Claim C8, as the code has it. \<^verbatim>\<open>sad_agsne.logpmf(x)\<close> never raises. It prints
  \<^verbatim>\<open>Error: log(0) is undefined.\<close> and returns \<^verbatim>\<open>None\<close> if and only if \<open>x\<close> is outside
  \<open>[1, N]\<close> or is not an instance of \<^verbatim>\<open>int\<close>. For proper parameters and every Python
  integer \<open>i\<close> in \<open>[1, N]\<close>, \<^verbatim>\<open>pmf(i)\<close> is a positive number \<open>p\<close>, and \<^verbatim>\<open>logpmf(i)\<close> prints
  nothing and returns \<open>ln p\<close>.
\<close>

theorem sad_agsne_logpmf_behaviour:
  "(fst (sad_agsne_logpmf (sad_agsne_init (G, S, N, E) (lambda1, beta, lambda3, z)) x)
       = Inr ([''Error: log(0) is undefined.''], None)
     \<longleftrightarrow> \<not> (1 \<le> num_val x \<and> num_val x \<le> real_of_int N \<and> isinstance_int x))
   \<and> \<not> isl (fst (sad_agsne_logpmf (sad_agsne_init (G, S, N, E) (lambda1, beta, lambda3, z)) x))
   \<and> (proper_sad N lambda1 beta \<and> 1 \<le> i \<and> i \<le> N \<longrightarrow>
        (\<exists>p. 0 < p
           \<and> fst (sad_agsne_pmf (sad_agsne_init (G, S, N, E) (lambda1, beta, lambda3, z)) (PyInt i)) = Fin p
           \<and> fst (sad_agsne_logpmf (sad_agsne_init (G, S, N, E) (lambda1, beta, lambda3, z)) (PyInt i))
               = Inr ([], Some (Fin (ln p)))))"
proof -
  let ?self = "sad_agsne_init (G, S, N, E) (lambda1, beta, lambda3, z)"
  have fields: "sad_a ?self = 1" "sad_b ?self = N"
    by (simp_all add: sad_agsne_init_def)
  have a: "fst (sad_agsne_logpmf ?self x) = Inr ([''Error: log(0) is undefined.''], None)
     \<longleftrightarrow> \<not> (1 \<le> num_val x \<and> num_val x \<le> real_of_int N \<and> isinstance_int x)"
    by (simp add: sad_agsne_logpmf_def fields)
  have b: "\<not> isl (fst (sad_agsne_logpmf ?self x))"
    by (simp add: sad_agsne_logpmf_def)
  have c: "\<exists>p. 0 < p \<and> fst (sad_agsne_pmf ?self (PyInt i)) = Fin p
           \<and> fst (sad_agsne_logpmf ?self (PyInt i)) = Inr ([], Some (Fin (ln p)))"
    if "proper_sad N lambda1 beta" "1 \<le> i" "i \<le> N"
  proof -
    have "0 < sad_weight lambda1 beta i"
      using that by (intro sad_kernel_Fin(2)) (auto simp: proper_sad_def)
    then have "0 < sad_weight lambda1 beta i / (\<Sum>k = 1..N. sad_weight lambda1 beta k)"
      using sad_norm_Fin(2)[OF that(1)] by simp
    with sad_pmf_Fin[OF that] sad_logpmf_value[OF that] show ?thesis by blast
  qed
  from a b c show ?thesis by blast
qed

text \<open>The theorem for \<open>N = 2\<close>, \<open>lambda1 = 0\<close>, \<open>beta = 1\<close>, at the arguments \<open>0\<close> and \<open>1\<close>.\<close>

theorem sad_agsne_logpmf_behaviour_witness:
  "proper_sad 2 0 1 \<and> (1::int) \<le> 1 \<and> (1::int) \<le> 2
   \<and> fst (sad_agsne_logpmf (sad_agsne_init (1, 1, 2, 10) (0, 1, 1, 1)) (PyInt 0))
       = Inr ([''Error: log(0) is undefined.''], None)
   \<and> \<not> isl (fst (sad_agsne_logpmf (sad_agsne_init (1, 1, 2, 10) (0, 1, 1, 1)) (PyInt 0)))
   \<and> (\<exists>p. 0 < p
         \<and> fst (sad_agsne_pmf (sad_agsne_init (1, 1, 2, 10) (0, 1, 1, 1)) (PyInt 1)) = Fin p
         \<and> fst (sad_agsne_logpmf (sad_agsne_init (1, 1, 2, 10) (0, 1, 1, 1)) (PyInt 1))
             = Inr ([], Some (Fin (ln p))))"
proof -
  have p: "proper_sad 2 0 1" by (simp add: proper_sad_def)
  from sad_agsne_logpmf_behaviour
         [where G = 1 and S = 1 and N = 2 and E = 10 and ?lambda1.0 = 0 and beta = 1
            and ?lambda3.0 = 1 and z = 1 and x = "PyInt 0" and i = 1] p
  show ?thesis by simp
qed

text \<open>
  The claim fails at \<open>x = 0\<close>, which is outside \<open>[1, N]\<close>: the call raises nothing, it prints
  the message and returns \<^verbatim>\<open>None\<close>.
\<close>

theorem sad_agsne_logpmf_counterexample:
  "fst (sad_agsne_logpmf (sad_agsne_init (1, 1, 2, 10) (0, 1, 1, 1)) (PyInt 0))
     = Inr ([''Error: log(0) is undefined.''], None)
   \<and> \<not> isl (fst (sad_agsne_logpmf (sad_agsne_init (1, 1, 2, 10) (0, 1, 1, 1)) (PyInt 0)))
   \<and> num_val (PyInt 0) < 1"
  by (simp add: sad_agsne_logpmf_def sad_agsne_init_def)

section \<open>Arguments that are not instances of \<^verbatim>\<open>int\<close>\<close>



section \<open>Methods do not change the object\<close>

text \<open>
  Claim C9. Every evaluation method of every class leaves the object as it found it: all
  attributes set by the constructor have, after the call, the values they had before.
\<close>

theorem methods_leave_object_unchanged:
  "snd (psi_epsilon_pdf pe x) = pe
   \<and> snd (psi_epsilon_cdf get_integral pe x) = pe
   \<and> snd (psi_epsilon_ppf bisect get_integral pe q) = pe
   \<and> snd (psi_epsilon_rvs uniform_rvs bisect get_integral pe size') = pe
   \<and> snd (psi_epsilon_E quad pe) = pe
   \<and> snd (psi_epsilon_approx_pdf pa x) = pa
   \<and> snd (psi_epsilon_approx_cdf pa x) = pa
   \<and> snd (psi_epsilon_approx_ppf pa q) = pa
   \<and> snd (psi_epsilon_approx_rvs uniform_rvs pa size') = pa
   \<and> snd (theta_epsilon_pdf te x n) = te
   \<and> snd (theta_epsilon_logpdf te x n) = te
   \<and> snd (theta_epsilon_cdf quad te x n) = te
   \<and> snd (theta_epsilon_ppf bisect quad te n q) = te
   \<and> snd (theta_epsilon_rvs draws te n size') = te
   \<and> snd (theta_epsilon_E quad te n) = te
   \<and> snd (gamma_agsne_pmf ga v) = ga
   \<and> snd (gamma_agsne_cdf ga v) = ga
   \<and> snd (sad_agsne_pmf sad v) = sad
   \<and> snd (sad_agsne_logpmf sad v) = sad
   \<and> snd (sad_agsne_cdf sad v) = sad
   \<and> snd (sad_agsne_rvs uniform_rvs sad size') = sad
   \<and> snd (psi_agsne_pdf S_global psi x) = psi
   \<and> snd (psi_agsne_cdf psi x) = psi
   \<and> snd (psi_agsne_ppf bisect psi q) = psi
   \<and> snd (psi_agsne_rvs uniform_rvs bisect psi size') = psi
   \<and> snd (theta_agsne_pdf th x m n) = th
   \<and> snd (theta_agsne_cdf th x m n) = th
   \<and> snd (theta_agsne_ppf th q m n) = th
   \<and> snd (theta_agsne_rvs uniform_rvs th size' m n) = th
   \<and> snd (theta_agsne_expected th m n) = th"
  by (simp add: psi_epsilon_pdf_def psi_epsilon_cdf_def psi_epsilon_ppf_def psi_epsilon_rvs_def
      psi_epsilon_E_def psi_epsilon_approx_pdf_def psi_epsilon_approx_cdf_def
      psi_epsilon_approx_ppf_def psi_epsilon_approx_rvs_def theta_epsilon_pdf_def
      theta_epsilon_logpdf_def theta_epsilon_cdf_def theta_epsilon_ppf_def theta_epsilon_rvs_def
      theta_epsilon_E_def gamma_agsne_pmf_def gamma_agsne_cdf_def sad_agsne_pmf_def
      sad_agsne_logpmf_def sad_agsne_cdf_def sad_agsne_rvs_def psi_agsne_pdf_def psi_agsne_cdf_def
      psi_agsne_ppf_def psi_agsne_rvs_def theta_agsne_pdf_def theta_agsne_cdf_def
      theta_agsne_ppf_def theta_agsne_rvs_def theta_agsne_expected_def Let_def)

text \<open>The theorem for \<^verbatim>\<open>pmf\<close> and \<^verbatim>\<open>cdf\<close> on a \<^verbatim>\<open>gamma_agsne\<close> object.\<close>

theorem methods_leave_object_unchanged_witness:
  "snd (gamma_agsne_pmf (gamma_agsne_init (1, 2, 10, 100) (0, ln 2, 1, 1)) (PyInt 1))
     = gamma_agsne_init (1, 2, 10, 100) (0, ln 2, 1, 1)
   \<and> snd (gamma_agsne_cdf (gamma_agsne_init (1, 2, 10, 100) (0, ln 2, 1, 1)) (PyInt 1))
     = gamma_agsne_init (1, 2, 10, 100) (0, ln 2, 1, 1)"
  using methods_leave_object_unchanged
          [where ga = "gamma_agsne_init (1, 2, 10, 100) (0, ln 2, 1, 1)" and v = "PyInt 1"]
  by blast

end
